theory Spec2Isabelle
  imports Complex_Main
begin

section \<open>The numeric type \<open>Real\<close>\<close>

text \<open>
  Modelled from the spec: the header \<open>real.h\<close>, which declares the type \<open>Real\<close>, is not
  part of the sources. The specification describes \<open>Real\<close> as the platform's standard
  floating-point type (double precision), with IEEE-754 semantics: NaN and the two
  infinities propagate through arithmetic. The model below is IEEE-754 binary64 in the
  default rounding mode (round to nearest, ties to even):
  \<^item> a value is NaN, one of the two infinities, or a finite number;
  \<^item> the result of \<open>+\<close>, \<open>-\<close>, \<open>*\<close>, \<open>/\<close> and \<open>sqrt\<close> on finite operands is the exact
    result rounded by \<open>round_binary64\<close> (53 significant bits, exponents from \<open>-1022\<close>,
    gradual underflow to multiples of \<open>2 powi (-1074)\<close>, overflow to an infinity);
  \<^item> \<open>floor\<close>, \<open>trunc\<close> and \<open>fmod\<close> are exact, as in C;
  \<^item> every comparison with NaN is false.
  The two zeros of IEEE-754 are identified: they compare equal in C++, and the functions
  of \<open>surfaces.h\<close> never divide by a zero they have not compared first, except \<open>ellipse\<close>,
  whose divisors are squares and so never the negative zero. A surface passed in by a
  caller can tell the two zeros apart (\<open>1 / p.x\<close> does), so a statement that such a
  surface is evaluated at a given point is made only where the program computes that
  point by the same expression, or where no coordinate concerned is a zero. Every
  operation is rounded to binary64 on its own: no extended intermediate precision, no
  fused multiply-add.
\<close>

datatype Real = NaN | PInf | NInf | Fin real

text \<open>Round to the nearest integer, ties to the even one.\<close>

definition round_half_even :: "real \<Rightarrow> int" where
  "round_half_even r =
     (if r - of_int \<lfloor>r\<rfloor> < 1 / 2 then \<lfloor>r\<rfloor>
      else if 1 / 2 < r - of_int \<lfloor>r\<rfloor> then \<lfloor>r\<rfloor> + 1
      else if even \<lfloor>r\<rfloor> then \<lfloor>r\<rfloor> else \<lfloor>r\<rfloor> + 1)"

text \<open>The exponent of the binade of \<open>r\<close>, not below the smallest normal exponent.\<close>

definition binade :: "real \<Rightarrow> int" where
  "binade r = max \<lfloor>log 2 \<bar>r\<bar>\<rfloor> (- 1022)"

text \<open>The distance between neighbouring binary64 numbers around \<open>r\<close>.\<close>

definition ulp :: "real \<Rightarrow> real" where
  "ulp r = 2 powi (binade r - 52)"

definition round_binary64 :: "real \<Rightarrow> Real" where
  "round_binary64 r =
     (if r = 0 then Fin 0
      else if 2 ^ 1024 \<le> of_int (round_half_even (\<bar>r\<bar> / ulp r)) * ulp r
        then (if r < 0 then NInf else PInf)
      else Fin (sgn r * (of_int (round_half_even (\<bar>r\<bar> / ulp r)) * ulp r)))"

subsection \<open>Comparisons\<close>

fun Real_le :: "Real \<Rightarrow> Real \<Rightarrow> bool" where
  "Real_le NaN b = False"
| "Real_le a NaN = False"
| "Real_le NInf b = True"
| "Real_le a PInf = True"
| "Real_le PInf b = False"
| "Real_le a NInf = False"
| "Real_le (Fin a) (Fin b) = (a \<le> b)"

fun Real_lt :: "Real \<Rightarrow> Real \<Rightarrow> bool" where
  "Real_lt NaN b = False"
| "Real_lt a NaN = False"
| "Real_lt PInf b = False"
| "Real_lt a NInf = False"
| "Real_lt NInf b = True"
| "Real_lt a PInf = True"
| "Real_lt (Fin a) (Fin b) = (a < b)"

fun Real_eq :: "Real \<Rightarrow> Real \<Rightarrow> bool" where
  "Real_eq NaN b = False"
| "Real_eq a NaN = False"
| "Real_eq a b = (a = b)"

subsection \<open>Arithmetic\<close>

fun Real_neg :: "Real \<Rightarrow> Real" where
  "Real_neg NaN = NaN"
| "Real_neg PInf = NInf"
| "Real_neg NInf = PInf"
| "Real_neg (Fin a) = Fin (- a)"

fun Real_add :: "Real \<Rightarrow> Real \<Rightarrow> Real" where
  "Real_add NaN b = NaN"
| "Real_add a NaN = NaN"
| "Real_add PInf NInf = NaN"
| "Real_add NInf PInf = NaN"
| "Real_add PInf b = PInf"
| "Real_add NInf b = NInf"
| "Real_add a PInf = PInf"
| "Real_add a NInf = NInf"
| "Real_add (Fin a) (Fin b) = round_binary64 (a + b)"

definition Real_sub :: "Real \<Rightarrow> Real \<Rightarrow> Real" where
  "Real_sub a b = Real_add a (Real_neg b)"

text \<open>The sign of a non-NaN value as a number: \<open>-1\<close>, \<open>0\<close> or \<open>1\<close>.\<close>

fun Real_sgn :: "Real \<Rightarrow> real" where
  "Real_sgn NaN = 0"
| "Real_sgn PInf = 1"
| "Real_sgn NInf = - 1"
| "Real_sgn (Fin a) = sgn a"

definition signed_inf :: "real \<Rightarrow> Real" where
  "signed_inf r = (if r < 0 then NInf else PInf)"

fun Real_mul :: "Real \<Rightarrow> Real \<Rightarrow> Real" where
  "Real_mul NaN b = NaN"
| "Real_mul a NaN = NaN"
| "Real_mul (Fin a) (Fin b) = round_binary64 (a * b)"
| "Real_mul a b =
     (if Real_sgn a * Real_sgn b = 0 then NaN else signed_inf (Real_sgn a * Real_sgn b))"

fun Real_div :: "Real \<Rightarrow> Real \<Rightarrow> Real" where
  "Real_div NaN b = NaN"
| "Real_div a NaN = NaN"
| "Real_div (Fin a) (Fin b) =
     (if b = 0 then (if a = 0 then NaN else signed_inf a) else round_binary64 (a / b))"
| "Real_div (Fin a) b = Fin 0"
| "Real_div a (Fin b) = signed_inf (Real_sgn a * (if b < 0 then - 1 else 1))"
| "Real_div a b = NaN"

subsection \<open>The functions of \<open><cmath>\<close>\<close>

fun std_floor :: "Real \<Rightarrow> Real" where
  "std_floor (Fin a) = Fin (of_int \<lfloor>a\<rfloor>)"
| "std_floor a = a"

definition trunc_int :: "real \<Rightarrow> int" where
  "trunc_int r = (if 0 \<le> r then \<lfloor>r\<rfloor> else \<lceil>r\<rceil>)"

fun std_trunc :: "Real \<Rightarrow> Real" where
  "std_trunc (Fin a) = Fin (of_int (trunc_int a))"
| "std_trunc a = a"

fun std_fmod :: "Real \<Rightarrow> Real \<Rightarrow> Real" where
  "std_fmod NaN b = NaN"
| "std_fmod a NaN = NaN"
| "std_fmod PInf b = NaN"
| "std_fmod NInf b = NaN"
| "std_fmod (Fin a) (Fin b) =
     (if b = 0 then NaN else Fin (a - b * of_int (trunc_int (a / b))))"
| "std_fmod (Fin a) b = Fin a"

fun std_sqrt :: "Real \<Rightarrow> Real" where
  "std_sqrt NaN = NaN"
| "std_sqrt PInf = PInf"
| "std_sqrt NInf = NaN"
| "std_sqrt (Fin a) = (if a < 0 then NaN else round_binary64 (sqrt a))"

section \<open>Points and surfaces\<close>

text \<open>
  \<open>struct Point\<close>: two constant fields \<open>x\<close> and \<open>y\<close> (here \<open>px\<close> and \<open>py\<close>, so that \<open>x\<close>
  and \<open>y\<close> stay free for variables). \<open>Surface\<close> is \<open>std::function<Real(Point)>\<close>; a surface
  is a function of the point alone.
\<close>

datatype Point = Point (px: Real) (py: Real)

type_synonym Surface = "Point \<Rightarrow> Real"

subsection \<open>Primitive generators\<close>

text \<open>
  The generators \<open>sin_wave\<close> and \<open>cos_wave\<close> and the combinator \<open>rotate\<close> are left
  out: they rest on \<open>std::sin\<close> and \<open>std::cos\<close>, whose results IEEE-754 does not fix.
  The template \<open>evaluate\<close> is left out as well. None of the properties below is about
  them.
\<close>

definition plain :: Surface where
  "plain = (\<lambda>p. Fin 0)"

definition slope :: Surface where
  "slope = (\<lambda>p. px p)"

definition steps :: "Real \<Rightarrow> Surface" where
  "steps s = (\<lambda>p. if Real_le s (Fin 0) then Fin 0 else std_floor (Real_div (px p) s))"

definition stripes :: "Real \<Rightarrow> Surface" where
  "stripes s = (\<lambda>p.
     if Real_le s (Fin 0) then Fin 0
     else if Real_lt (Fin 0) (px p) then
       std_fmod
         (if Real_eq (std_trunc (Real_div (px p) s)) (Real_div (px p) s)
          then std_floor (Real_div (px p) s)
          else Real_add (std_floor (Real_div (px p) s)) (Fin 1))
         (Fin 2)
     else std_fmod (std_floor (Real_div (Real_neg (px p)) s)) (Fin 2))"

definition checker :: "Real \<Rightarrow> Surface" where
  "checker s = (\<lambda>p.
     if Real_le s (Fin 0) then Fin 0
     else std_fmod
       (Real_add
          (Real_add (stripes s (Point (Real_neg (px p)) (Real_neg (py p))))
                    (stripes s (Point (Real_neg (py p)) (Real_neg (px p)))))
          (Fin 1))
       (Fin 2))"

definition sqr :: Surface where
  "sqr = (\<lambda>p. Real_mul (px p) (px p))"

definition rings :: "Real \<Rightarrow> Surface" where
  "rings s = (\<lambda>p.
     if Real_le s (Fin 0) then Fin 0
     else if Real_eq (px p) (Fin 0) \<and> Real_eq (py p) (Fin 0) then Fin 1
     else stripes s
       (Point (std_sqrt (Real_add (Real_mul (px p) (px p)) (Real_mul (py p) (py p))))
              (Fin 0)))"

definition ellipse :: "Real \<Rightarrow> Real \<Rightarrow> Surface" where
  "ellipse a b = (\<lambda>p.
     if Real_le a (Fin 0) \<or> Real_le b (Fin 0) then Fin 0
     else if Real_le
         (Real_add (Real_div (Real_mul (px p) (px p)) (Real_mul a a))
                   (Real_div (Real_mul (py p) (py p)) (Real_mul b b)))
         (Fin 1)
       then Fin 1 else Fin 0)"

definition rectangle :: "Real \<Rightarrow> Real \<Rightarrow> Surface" where
  "rectangle a b = (\<lambda>p.
     if Real_le a (Fin 0) \<or> Real_le b (Fin 0) then Fin 0
     else if Real_le (Real_neg a) (px p) \<and> Real_le (px p) a
           \<and> Real_le (Real_neg b) (py p) \<and> Real_le (py p) b
       then Fin 1 else Fin 0)"

subsection \<open>Transform combinators\<close>

definition translate :: "Surface \<Rightarrow> Point \<Rightarrow> Surface" where
  "translate f v = (\<lambda>p. f (Point (Real_sub (px p) (px v)) (Real_sub (py p) (py v))))"

definition scale :: "Surface \<Rightarrow> Point \<Rightarrow> Surface" where
  "scale f s = (\<lambda>p.
     if Real_eq (px s) (Fin 0) \<or> Real_eq (py s) (Fin 0) then PInf
     else f (Point (Real_div (px p) (px s)) (Real_div (py p) (py s))))"

definition invert :: "Surface \<Rightarrow> Surface" where
  "invert f = (\<lambda>p. f (Point (py p) (px p)))"

definition flip :: "Surface \<Rightarrow> Surface" where
  "flip f = (\<lambda>p. f (Point (Real_neg (px p)) (py p)))"

definition mul :: "Surface \<Rightarrow> Real \<Rightarrow> Surface" where
  "mul f c = (\<lambda>p. Real_mul (f p) c)"

definition add :: "Surface \<Rightarrow> Real \<Rightarrow> Surface" where
  "add f c = (\<lambda>p. Real_add (f p) c)"

subsection \<open>Composition\<close>

text \<open>
  \<open>compose_details\<close> is a class template with three specialisations that between them
  match every argument pack: the empty pack (the identity), a single function (the
  function itself), and a first function followed by a non-empty rest (apply the first,
  then the composition of the rest). The primary template is therefore never
  instantiated. The pack is a list here, so the functions share one type \<open>'a\<close>; a chain
  through several types is the instance where \<open>'a\<close> is their sum.
\<close>

fun compose :: "('a \<Rightarrow> 'a) list \<Rightarrow> 'a \<Rightarrow> 'a" where
  "compose [] = (\<lambda>p. p)"
| "compose [f] = f"
| "compose (f # fs) = (\<lambda>p. compose fs (f p))"

text \<open>The pipeline of the specification: \<open>fn (... (f2 (f1 p)) ...)\<close>.\<close>

definition pipeline_spec :: "('a \<Rightarrow> 'a) list \<Rightarrow> 'a \<Rightarrow> 'a" where
  "pipeline_spec fs p = foldl (\<lambda>acc f. f acc) p fs"

section \<open>Notions of the specification\<close>

text \<open>\<open>std::isfinite\<close>: neither NaN nor an infinity.\<close>

definition is_finite :: "Real \<Rightarrow> bool" where
  "is_finite a = (case a of Fin r \<Rightarrow> True | _ \<Rightarrow> False)"

text \<open>
  A value of the type: a finite number is a binary64 number when rounding leaves it
  unchanged.
\<close>

definition is_binary64 :: "Real \<Rightarrow> bool" where
  "is_binary64 a = (case a of Fin r \<Rightarrow> round_binary64 r = Fin r | _ \<Rightarrow> True)"

text \<open>The floating-point sum of two finite values is their exact sum.\<close>

definition exact_sum :: "Real \<Rightarrow> Real \<Rightarrow> bool" where
  "exact_sum a b =
     (case a of
        Fin x \<Rightarrow> (case b of Fin y \<Rightarrow> Real_add a b = Fin (x + y) | _ \<Rightarrow> False)
      | _ \<Rightarrow> False)"

text \<open>The quotient is ``an exact integer'': finite, with no fractional part.\<close>

definition is_exact_integer :: "Real \<Rightarrow> bool" where
  "is_exact_integer q = (case q of Fin r \<Rightarrow> of_int \<lfloor>r\<rfloor> = r | _ \<Rightarrow> False)"

section \<open>Facts about the arithmetic\<close>

lemma Real_neg_neg: "Real_neg (Real_neg a) = a"
  by (cases a) simp_all

lemma Real_sub_neg: "Real_sub a (Real_neg b) = Real_add a b"
  by (simp add: Real_sub_def Real_neg_neg)

lemma positive_cases:
  assumes "Real_lt (Fin 0) s"
  obtains (finite) r where "s = Fin r" and "0 < r" | (infinite) "s = PInf"
  using assms by (cases s) simp_all

lemma positive_not_le: "Real_lt (Fin 0) s \<Longrightarrow> \<not> Real_le s (Fin 0)"
  by (cases s) simp_all

lemma is_finite_neg: "is_finite (Real_neg a) = is_finite a"
  by (cases a) (simp_all add: is_finite_def)

lemma trunc_int_exact: "(of_int (trunc_int r) = (r::real)) \<longleftrightarrow> (of_int \<lfloor>r\<rfloor> = r)"
  by (simp add: trunc_int_def of_int_floor_cancel of_int_ceiling_cancel)

text \<open>The test \<open>std::trunc(q) == q\<close> of \<open>stripes\<close>.\<close>

lemma trunc_test: "Real_eq (std_trunc q) q \<longleftrightarrow> is_exact_integer q \<or> q = PInf \<or> q = NInf"
  by (cases q) (simp_all add: is_exact_integer_def trunc_int_exact)

lemma index_at_infinity:
  "q = PInf \<or> q = NInf \<Longrightarrow> Real_add (std_floor q) (Fin 1) = std_floor q"
  by auto

lemma fmod_2_of_int:
  assumes "0 \<le> k"
  shows "std_fmod (Fin (real_of_int k)) (Fin 2) = Fin (real_of_int (k mod 2))"
proof -
  have "trunc_int (real_of_int k / 2) = k div 2"
    using assms floor_divide_of_int_eq [of k 2, where ?'a = real]
    by (simp add: trunc_int_def)
  moreover have "k - 2 * (k div 2) = k mod 2"
    by (simp add: minus_mult_div_eq_mod)
  ultimately show ?thesis
    by (simp flip: of_int_diff of_int_mult del: of_int_diff of_int_mult)
qed

lemma parity_cases: "real_of_int (k mod 2) = 0 \<or> real_of_int (k mod 2) = 1"
proof -
  have "k mod 2 = 0 \<or> k mod 2 = 1"
    by presburger
  then show ?thesis
    by auto
qed

lemma floor_uminus_parity: "\<lfloor>- y\<rfloor> mod 2 = \<lceil>y :: real\<rceil> mod 2"
  by (simp add: ceiling_def) presburger

lemma compose_Cons: "compose (f # fs) p = compose fs (f p)"
  by (cases fs) simp_all

section \<open>Rounding\<close>

lemma round_half_even_of_int: "round_half_even (of_int j) = j"
  by (simp add: round_half_even_def)

lemma round_half_even_nonneg: "0 \<le> r \<Longrightarrow> 0 \<le> round_half_even r"
  by (simp add: round_half_even_def)

lemma round_half_even_le:
  assumes "r \<le> of_int N"
  shows "round_half_even r \<le> N"
proof -
  have f: "\<lfloor>r\<rfloor> \<le> N"
    using assms by (simp add: floor_le_iff)
  have "\<lfloor>r\<rfloor> + 1 \<le> N" if "r - of_int \<lfloor>r\<rfloor> \<noteq> 0"
  proof -
    have "of_int \<lfloor>r\<rfloor> < r"
      using that of_int_floor_le [of r] by linarith
    then have "real_of_int \<lfloor>r\<rfloor> < of_int N"
      using assms by simp
    then show ?thesis
      by simp
  qed
  with f show ?thesis
    by (auto simp add: round_half_even_def)
qed

lemma round_half_even_ge:
  assumes "of_int N \<le> r"
  shows "N \<le> round_half_even r"
proof -
  have "N \<le> \<lfloor>r\<rfloor>"
    using assms by (simp add: le_floor_iff)
  then show ?thesis
    by (simp add: round_half_even_def)
qed

lemma ulp_pos: "0 < ulp r"
  by (simp add: ulp_def)

lemma binade_uminus: "binade (- r) = binade r"
  by (simp add: binade_def)

lemma ulp_uminus: "ulp (- r) = ulp r"
  by (simp add: ulp_def binade_uminus)

lemma round_binary64_uminus [simp]:
  "round_binary64 (- r) = Real_neg (round_binary64 r)"
  by (simp add: round_binary64_def ulp_uminus sgn_if)

lemma round_binary64_not_NaN: "round_binary64 r \<noteq> NaN"
  by (simp add: round_binary64_def)

lemma binade_eq:
  assumes "2 powi e \<le> \<bar>r\<bar>" and "\<bar>r\<bar> < 2 powi (e + 1)" and "- 1022 \<le> e"
  shows "binade r = e"
proof -
  have "(0::real) < 2 powi e"
    by simp
  with assms(1) have pos: "0 < \<bar>r\<bar>"
    by linarith
  have "2 powr real_of_int e = (2::real) powi e"
    and "2 powr real_of_int (e + 1) = (2::real) powi (e + 1)"
    by (rule powr_real_of_int'; simp)+
  then have "\<lfloor>log 2 \<bar>r\<bar>\<rfloor> = e"
    using assms(1,2) pos by (simp only: floor_log_eq_powr_iff)
  then show ?thesis
    using assms(3) by (simp add: binade_def)
qed

lemma below_next_binade:
  assumes "r \<noteq> 0"
  shows "\<bar>r\<bar> < 2 powi (binade r + 1)"
proof -
  have pos: "0 < \<bar>r\<bar>"
    using assms by simp
  have "log 2 \<bar>r\<bar> < real_of_int (\<lfloor>log 2 \<bar>r\<bar>\<rfloor> + 1)"
    by linarith
  also have "\<dots> \<le> real_of_int (binade r + 1)"
    by (simp add: binade_def)
  finally have "\<bar>r\<bar> < 2 powr real_of_int (binade r + 1)"
    using pos by (simp add: less_powr_iff)
  moreover have "2 powr real_of_int (binade r + 1) = (2::real) powi (binade r + 1)"
    by (rule powr_real_of_int') simp_all
  ultimately show ?thesis
    by simp
qed

lemma mantissa_bound:
  assumes "r \<noteq> 0"
  shows "round_half_even (\<bar>r\<bar> / ulp r) \<le> 2 ^ 53"
proof -
  have "2 powi (binade r + 1) = ulp r * 2 powi 53"
    unfolding ulp_def by (subst power_int_add [symmetric]) (simp_all add: add.commute)
  then have "\<bar>r\<bar> < ulp r * 2 ^ 53"
    using below_next_binade [OF assms] by simp
  then have "\<bar>r\<bar> / ulp r \<le> 2 ^ 53"
    using ulp_pos [of r] by (simp add: field_simps)
  then have "\<bar>r\<bar> / ulp r \<le> real_of_int (2 ^ 53)"
    by simp
  then show ?thesis
    by (rule round_half_even_le)
qed

subsection \<open>Numbers that rounding leaves unchanged\<close>

lemma binade_dyadic:
  fixes k :: int and n :: nat
  assumes k: "k \<noteq> 0" "\<bar>k\<bar> < 2 ^ 53" and n: "n \<le> 1074"
  shows "binade (of_int k / 2 ^ n) + int n \<le> 52"
proof -
  let ?a = "\<bar>of_int k / 2 ^ n :: real\<bar>"
  have pos: "0 < ?a" using k by simp
  have "real_of_int \<bar>k\<bar> < 2 ^ 53"
    using k(2) by (metis of_int_less_numeral_power_cancel_iff)
  then have "?a * 2 ^ n < 2 ^ 53"
    by (simp add: abs_divide)
  then have "?a * 2 powr real n < 2 powr 53"
    by (simp add: powr_realpow)
  then have "?a < 2 powr (53 - real n)"
    by (simp add: powr_diff field_simps)
  then have "log 2 ?a < 53 - real n"
    using pos by (simp add: less_powr_iff)
  then have "log 2 ?a < real_of_int (53 - int n)"
    by simp
  then have "\<lfloor>log 2 ?a\<rfloor> < 53 - int n"
    by (simp only: floor_less_iff)
  then show ?thesis
    using n by (simp add: binade_def)
qed

lemma dyadic_over_ulp:
  fixes k :: int and n :: nat
  assumes k: "k \<noteq> 0" "\<bar>k\<bar> < 2 ^ 53" and n: "n \<le> 1074"
  shows "\<bar>of_int k / 2 ^ n\<bar> / ulp (of_int k / 2 ^ n)
           = real_of_int (\<bar>k\<bar> * 2 ^ nat (52 - binade (of_int k / 2 ^ n) - int n))"
proof -
  let ?r = "of_int k / 2 ^ n :: real"
  let ?d = "52 - binade ?r - int n"
  have d: "0 \<le> ?d"
    using binade_dyadic [OF k n] by simp
  have "ulp ?r * 2 powi ?d = 2 powi ((binade ?r - 52) + ?d)"
    unfolding ulp_def by (subst power_int_add) simp_all
  also have "\<dots> = 2 powi (- int n)"
    by simp
  also have "\<dots> = inverse (2 ^ n)"
    by (simp only: power_int_minus power_int_of_nat)
  finally have u: "ulp ?r * 2 ^ nat ?d * 2 ^ n = 1"
    using d by (simp add: power_int_def)
  have "\<bar>?r\<bar> = real_of_int \<bar>k\<bar> / 2 ^ n"
    by (simp add: abs_divide)
  also have "\<dots> = real_of_int \<bar>k\<bar> * 2 ^ nat ?d * ulp ?r"
    using u by (simp add: field_simps)
  finally have "\<bar>?r\<bar> / ulp ?r = real_of_int \<bar>k\<bar> * 2 ^ nat ?d"
    using ulp_pos [of ?r] by simp
  then show ?thesis
    by simp
qed

lemma round_binary64_dyadic:
  fixes k :: int and n :: nat
  assumes k: "\<bar>k\<bar> < 2 ^ 53" and n: "n \<le> 1074"
  shows "round_binary64 (of_int k / 2 ^ n) = Fin (of_int k / 2 ^ n)"
proof (cases "k = 0")
  case True
  then show ?thesis by (simp add: round_binary64_def)
next
  case False
  let ?r = "of_int k / 2 ^ n :: real"
  define j where "j = \<bar>k\<bar> * 2 ^ nat (52 - binade ?r - int n)"
  have e: "\<bar>?r\<bar> / ulp ?r = real_of_int j"
    unfolding j_def by (rule dyadic_over_ulp [OF False k n])
  have "real_of_int (round_half_even (\<bar>?r\<bar> / ulp ?r)) = \<bar>?r\<bar> / ulp ?r"
    by (simp only: e round_half_even_of_int)
  then have m: "real_of_int (round_half_even (\<bar>?r\<bar> / ulp ?r)) * ulp ?r = \<bar>?r\<bar>"
    using ulp_pos [of ?r] by simp
  have "real_of_int \<bar>k\<bar> < 2 ^ 53"
    using k by (metis of_int_less_numeral_power_cancel_iff)
  then have "\<bar>?r\<bar> * 2 ^ n < 2 ^ 53"
    by (simp add: abs_divide)
  moreover have "(1::real) \<le> 2 ^ n"
    by simp
  then have "\<bar>?r\<bar> * 1 \<le> \<bar>?r\<bar> * 2 ^ n"
    by (intro mult_left_mono) simp_all
  ultimately have "\<bar>?r\<bar> < 2 ^ 53"
    by simp
  moreover have "(2::real) ^ 53 \<le> 2 ^ 1024"
    by simp
  ultimately have small: "\<not> 2 ^ 1024 \<le> \<bar>?r\<bar>"
    by linarith
  have "?r \<noteq> 0"
    using False by simp
  moreover have "sgn ?r * \<bar>?r\<bar> = ?r"
    by (simp add: sgn_mult_abs)
  ultimately show ?thesis
    unfolding round_binary64_def m using small by simp
qed

lemma round_binary64_int:
  "\<bar>k\<bar> < 2 ^ 53 \<Longrightarrow> round_binary64 (of_int k) = Fin (of_int k)"
  using round_binary64_dyadic [of k 0] by simp

lemma round_binary64_numeral [simp]:
  "(numeral w :: int) < 2 ^ 53 \<Longrightarrow> round_binary64 (numeral w) = Fin (numeral w)"
  using round_binary64_int [of "numeral w"] by simp

lemma round_binary64_neg_numeral [simp]:
  "(numeral w :: int) < 2 ^ 53 \<Longrightarrow> round_binary64 (- numeral w) = Fin (- numeral w)"
  using round_binary64_int [of "- numeral w"] by simp

lemma round_binary64_0 [simp]: "round_binary64 0 = Fin 0"
  by (simp add: round_binary64_def)

lemma round_binary64_1 [simp]: "round_binary64 1 = Fin 1"
  using round_binary64_int [of 1] by simp

lemma round_binary64_half_numeral [simp]:
  "(numeral w :: int) < 2 ^ 53 \<Longrightarrow> round_binary64 (numeral w / 2) = Fin (numeral w / 2)"
  using round_binary64_dyadic [of "numeral w" 1] by simp

lemma round_binary64_half [simp]: "round_binary64 (1 / 2) = Fin (1 / 2)"
  using round_binary64_dyadic [of 1 1] by simp

subsection \<open>Overflow\<close>

lemma round_binary64_overflow:
  assumes "2 ^ 1024 \<le> \<bar>r\<bar>"
  shows "round_binary64 r = signed_inf r"
proof -
  have pos: "0 < \<bar>r\<bar>"
    using assms by (simp add: order.strict_trans2 [of 0 "2 ^ 1024"])
  have "(2::real) powr 1024 \<le> \<bar>r\<bar>"
    using assms by simp
  then have "1024 \<le> log 2 \<bar>r\<bar>"
    using pos by (simp add: le_log_iff)
  then have big: "1024 \<le> \<lfloor>log 2 \<bar>r\<bar>\<rfloor>"
    by (simp add: le_floor_iff)
  then have b: "binade r = \<lfloor>log 2 \<bar>r\<bar>\<rfloor>"
    by (simp add: binade_def)
  have "real_of_int (binade r) \<le> log 2 \<bar>r\<bar>"
    by (simp add: b)
  then have "2 powr real_of_int (binade r) \<le> \<bar>r\<bar>"
    using pos by (simp add: powr_le_iff)
  moreover have "2 powr real_of_int (binade r) = (2::real) powi binade r"
    by (rule powr_real_of_int') simp_all
  moreover have "(2::real) powi binade r = 2 powi 52 * ulp r"
    unfolding ulp_def by (subst power_int_add [symmetric]) simp_all
  ultimately have "real_of_int (2 ^ 52) \<le> \<bar>r\<bar> / ulp r"
    using ulp_pos [of r] by (simp add: field_simps)
  then have "2 ^ 52 \<le> round_half_even (\<bar>r\<bar> / ulp r)"
    by (rule round_half_even_ge)
  then have "real_of_int (2 ^ 52) \<le> real_of_int (round_half_even (\<bar>r\<bar> / ulp r))"
    by (simp only: of_int_le_iff)
  then have m: "(2::real) powi 52 \<le> real_of_int (round_half_even (\<bar>r\<bar> / ulp r))"
    by simp
  have "(2::real) powi 1024 \<le> 2 powi binade r"
    using big b by (intro power_int_increasing) simp_all
  also have "\<dots> = 2 powi 52 * ulp r"
    by (rule \<open>(2::real) powi binade r = 2 powi 52 * ulp r\<close>)
  also have "\<dots> \<le> real_of_int (round_half_even (\<bar>r\<bar> / ulp r)) * ulp r"
    using m ulp_pos [of r] by (intro mult_right_mono) simp_all
  finally have "2 ^ 1024 \<le> real_of_int (round_half_even (\<bar>r\<bar> / ulp r)) * ulp r"
    by simp
  then show ?thesis
    using pos by (simp add: round_binary64_def signed_inf_def)
qed

subsection \<open>The shape of a rounded value\<close>

lemma round_binary64_Fin_nonneg:
  assumes "round_binary64 r = Fin y" and "0 \<le> r"
  shows "0 \<le> y"
proof (cases "r = 0")
  case True
  with assms show ?thesis by (simp add: round_binary64_def)
next
  case False
  have "0 \<le> \<bar>r\<bar> / ulp r"
    using ulp_pos [of r] by simp
  then have "0 \<le> real_of_int (round_half_even (\<bar>r\<bar> / ulp r)) * ulp r"
    using ulp_pos [of r] round_half_even_nonneg [of "\<bar>r\<bar> / ulp r"] by simp
  moreover have "y = sgn r * (real_of_int (round_half_even (\<bar>r\<bar> / ulp r)) * ulp r)"
    using assms(1) False by (simp add: round_binary64_def split: if_splits)
  moreover have "sgn r = 1"
    using False assms(2) by simp
  ultimately show ?thesis by simp
qed

lemma round_binary64_Fin_shape:
  assumes "round_binary64 r = Fin y"
  shows "real_of_int \<lfloor>y\<rfloor> = y \<or> \<bar>y\<bar> \<le> 2 ^ 52"
proof (cases "r = 0")
  case True
  with assms show ?thesis by (simp add: round_binary64_def)
next
  case False
  define m where "m = round_half_even (\<bar>r\<bar> / ulp r)"
  have y: "y = sgn r * (real_of_int m * ulp r)"
    using assms False by (simp add: round_binary64_def m_def split: if_splits)
  have m0: "0 \<le> m"
    unfolding m_def using ulp_pos [of r] by (intro round_half_even_nonneg) simp
  have m1: "m \<le> 2 ^ 53"
    unfolding m_def by (rule mantissa_bound [OF False])
  show ?thesis
  proof (cases "52 \<le> binade r")
    case True
    then have "ulp r = real_of_int (2 ^ nat (binade r - 52))"
      by (simp add: ulp_def power_int_def)
    then have "y = real_of_int ((if 0 < r then 1 else - 1) * (m * 2 ^ nat (binade r - 52)))"
      using False by (simp add: y sgn_if)
    then show ?thesis
      by (metis floor_of_int)
  next
    case False
    then have "binade r - 52 \<le> - 1"
      by simp
    then have "(2::real) powi (binade r - 52) \<le> 2 powi (- 1)"
      by (intro power_int_increasing) simp_all
    then have u: "ulp r \<le> 1 / 2"
      by (simp add: ulp_def)
    have "\<bar>y\<bar> = real_of_int m * ulp r"
      using \<open>r \<noteq> 0\<close> m0 ulp_pos [of r] by (simp add: y abs_mult sgn_if)
    also have "\<dots> \<le> real_of_int (2 ^ 53) * (1 / 2)"
      using m0 m1 u ulp_pos [of r] by (intro mult_mono) simp_all
    finally show ?thesis
      by simp
  qed
qed

section \<open>The value of \<open>stripes\<close>\<close>

lemma ceiling_index:
  assumes r: "round_binary64 r = Fin y" and nonneg: "0 \<le> r"
  shows "(if Real_eq (std_trunc (Fin y)) (Fin y) then std_floor (Fin y)
          else Real_add (std_floor (Fin y)) (Fin 1)) = Fin (real_of_int \<lceil>y\<rceil>)"
proof (cases "real_of_int \<lfloor>y\<rfloor> = y")
  case True
  then have "\<lceil>y\<rceil> = \<lfloor>y\<rfloor>"
    by (metis ceiling_of_int)
  with True show ?thesis
    by (simp add: trunc_int_exact)
next
  case False
  have y0: "0 \<le> y"
    by (rule round_binary64_Fin_nonneg [OF r nonneg])
  have "\<bar>y\<bar> \<le> 2 ^ 52"
    using round_binary64_Fin_shape [OF r] False by simp
  then have "\<lfloor>y\<rfloor> + 1 \<le> 2 ^ 52 + 1" and "0 \<le> \<lfloor>y\<rfloor>"
    using y0 by (simp_all add: floor_le_iff)
  then have "\<bar>\<lfloor>y\<rfloor> + 1\<bar> < 2 ^ 53"
    by simp
  then have "round_binary64 (real_of_int (\<lfloor>y\<rfloor> + 1)) = Fin (real_of_int (\<lfloor>y\<rfloor> + 1))"
    by (rule round_binary64_int)
  moreover have "\<lceil>y\<rceil> = \<lfloor>y\<rfloor> + 1"
    using False by (simp add: ceiling_altdef)
  ultimately show ?thesis
    using False by (simp add: trunc_int_exact)
qed

text \<open>The value of \<open>stripes\<close> in closed form: the parity of the ceiling of the quotient.\<close>

lemma stripes_finite_period:
  assumes "0 < r"
  shows "stripes (Fin r) (Point (Fin a) b) =
     (case round_binary64 (a / r) of Fin y \<Rightarrow> Fin (real_of_int (\<lceil>y\<rceil> mod 2)) | _ \<Rightarrow> NaN)"
proof (cases "0 < a")
  case True
  then have q: "0 \<le> a / r" using assms by simp
  show ?thesis
  proof (cases "round_binary64 (a / r)")
    case (Fin y)
    have "0 \<le> y" by (rule round_binary64_Fin_nonneg [OF Fin q])
    then have "0 \<le> \<lceil>y\<rceil>" by (simp add: ceiling_le_iff less_ceiling_iff)
    then have parity: "std_fmod (Fin (real_of_int \<lceil>y\<rceil>)) (Fin 2) = Fin (real_of_int (\<lceil>y\<rceil> mod 2))"
      by (rule fmod_2_of_int)
    have "stripes (Fin r) (Point (Fin a) b) =
        std_fmod (if Real_eq (std_trunc (Fin y)) (Fin y) then std_floor (Fin y)
                  else Real_add (std_floor (Fin y)) (Fin 1)) (Fin 2)"
      using True assms by (simp add: stripes_def Fin)
    also have "\<dots> = Fin (real_of_int (\<lceil>y\<rceil> mod 2))"
      by (simp only: ceiling_index [OF Fin q] parity)
    finally show ?thesis
      by (simp add: Fin)
  qed (use True assms in \<open>simp_all add: stripes_def round_binary64_not_NaN\<close>)
next
  case False
  then have q: "0 \<le> - (a / r)" using assms by (simp add: divide_nonpos_pos)
  have branch: "stripes (Fin r) (Point (Fin a) b) =
      std_fmod (std_floor (Real_neg (round_binary64 (a / r)))) (Fin 2)"
    using False assms by (simp add: stripes_def round_binary64_uminus)
  show ?thesis
  proof (cases "round_binary64 (a / r)")
    case (Fin y)
    then have F: "round_binary64 (- (a / r)) = Fin (- y)"
      by (simp add: round_binary64_uminus)
    have "0 \<le> - y" by (rule round_binary64_Fin_nonneg [OF F q])
    then have "0 \<le> \<lfloor>- y\<rfloor>" by simp
    then have "std_fmod (Fin (real_of_int \<lfloor>- y\<rfloor>)) (Fin 2) = Fin (real_of_int (\<lfloor>- y\<rfloor> mod 2))"
      by (rule fmod_2_of_int)
    then have "stripes (Fin r) (Point (Fin a) b) = Fin (real_of_int (\<lfloor>- y\<rfloor> mod 2))"
      by (simp only: branch Fin Real_neg.simps std_floor.simps)
    then show ?thesis
      by (simp only: floor_uminus_parity Fin Real.case)
  qed (simp_all add: branch)
qed

lemma stripes_closed_form:
  assumes "Real_lt (Fin 0) s"
  shows "stripes s p =
     (case Real_div (px p) s of Fin y \<Rightarrow> Fin (real_of_int (\<lceil>y\<rceil> mod 2)) | _ \<Rightarrow> NaN)"
  using assms
proof (cases s rule: positive_cases)
  case (finite r)
  show ?thesis
  proof (cases p)
    case (Point a b)
    show ?thesis
    proof (cases a)
      case (Fin x)
      then show ?thesis
        using finite Point stripes_finite_period [of r x b] by simp
    qed (use finite in \<open>simp_all add: Point stripes_def signed_inf_def\<close>)
  qed
next
  case infinite
  show ?thesis
    by (cases p; cases "px p") (simp_all add: infinite stripes_def trunc_int_def)
qed

lemma stripes_range_iff:
  assumes "Real_lt (Fin 0) s"
  shows "(stripes s p = Fin 0 \<or> stripes s p = Fin 1) \<longleftrightarrow> is_finite (Real_div (px p) s)"
  using parity_cases
  by (cases "Real_div (px p) s") (simp_all add: stripes_closed_form [OF assms] is_finite_def)

lemma stripes_not_finite:
  assumes "Real_lt (Fin 0) s" and "\<not> is_finite (Real_div (px p) s)"
  shows "stripes s p = NaN"
  using assms(2)
  by (cases "Real_div (px p) s") (simp_all add: stripes_closed_form [OF assms(1)] is_finite_def)

lemma Real_div_neg: "Real_div (Real_neg a) b = Real_neg (Real_div a b)"
  by (cases a; cases b) (simp_all add: signed_inf_def round_binary64_uminus sgn_if)

lemma checker_of_binary:
  assumes "a = Fin 0 \<or> a = Fin 1" and "b = Fin 0 \<or> b = Fin 1"
  shows "std_fmod (Real_add (Real_add a b) (Fin 1)) (Fin 2) = (if a = b then Fin 1 else Fin 0)"
  using assms by (auto simp add: trunc_int_def)

lemma checker_of_NaN:
  "a = NaN \<or> b = NaN \<Longrightarrow> std_fmod (Real_add (Real_add a b) (Fin 1)) (Fin 2) = NaN"
  by (cases a; cases b) auto

section \<open>Concrete scenarios of \<open>stripes\<close>\<close>

text \<open>
  C1, as stated: \<open>stripes(1)\<close> returns 0.0 at \<open>Point(0.5, 0)\<close> and 1.0 at
  \<open>Point(1.5, 0)\<close>. Both values are the other way round: at \<open>0.5\<close> the quotient is not
  an integer, so the index is \<open>floor(0.5) + 1 = 1\<close>, and at \<open>1.5\<close> it is
  \<open>floor(1.5) + 1 = 2\<close>.
\<close>

theorem stripes_scenario_counterexample:
  "stripes (Fin 1) (Point (Fin (1 / 2)) (Fin 0)) \<noteq> Fin 0
   \<and> stripes (Fin 1) (Point (Fin (3 / 2)) (Fin 0)) \<noteq> Fin 1"
  by (simp add: stripes_def trunc_int_def)

text \<open>
  C1, amended: \<open>stripes(1)\<close> returns 1.0 at \<open>Point(0.5, 0)\<close> and 0.0 at
  \<open>Point(1.5, 0)\<close>.
\<close>

theorem stripes_scenario:
  "stripes (Fin 1) (Point (Fin (1 / 2)) (Fin 0)) = Fin 1
   \<and> stripes (Fin 1) (Point (Fin (3 / 2)) (Fin 0)) = Fin 0"
  by (simp add: stripes_def trunc_int_def)

section \<open>The tie-break rule of \<open>stripes\<close>\<close>

text \<open>
  C3: for every \<open>s > 0\<close> and point \<open>p\<close>: if \<open>p.x > 0\<close> the banding index is
  \<open>floor(p.x / s)\<close> when \<open>p.x / s\<close> is an exact integer and \<open>floor(p.x / s) + 1\<close>
  otherwise; if \<open>p.x <= 0\<close> the index is \<open>floor(-p.x / s)\<close>; the value returned is the
  index modulo 2. The quotient, the sum and the remainder are those of the floating-point
  type.
\<close>

theorem stripes_tie_break:
  assumes "Real_lt (Fin 0) s"
  shows "(Real_lt (Fin 0) (px p) \<longrightarrow>
           stripes s p =
             std_fmod
               (if is_exact_integer (Real_div (px p) s) then std_floor (Real_div (px p) s)
                else Real_add (std_floor (Real_div (px p) s)) (Fin 1))
               (Fin 2))
       \<and> (Real_le (px p) (Fin 0) \<longrightarrow>
           stripes s p = std_fmod (std_floor (Real_div (Real_neg (px p)) s)) (Fin 2))"
proof -
  have pos: "\<not> Real_le s (Fin 0)"
    using assms by (rule positive_not_le)
  have neg: "Real_le (px p) (Fin 0) \<Longrightarrow> \<not> Real_lt (Fin 0) (px p)"
    by (cases "px p") simp_all
  show ?thesis
    using index_at_infinity [of "Real_div (px p) s"]
    by (auto simp add: stripes_def pos neg trunc_test simp del: Real_add.simps std_floor.simps)
qed

text \<open>
  The rule at \<open>s = 1\<close>: an exact multiple (\<open>x = 2\<close>, index 2), a point inside a band
  (\<open>x = 1/2\<close>, index 1) and a negative point (\<open>x = -3/2\<close>, index 1).
\<close>

theorem stripes_tie_break_witness:
  "Real_lt (Fin 0) (Fin 1)
   \<and> Real_lt (Fin 0) (Fin 2) \<and> is_exact_integer (Real_div (Fin 2) (Fin 1))
   \<and> stripes (Fin 1) (Point (Fin 2) (Fin 0)) = Fin 0
   \<and> Real_lt (Fin 0) (Fin (1 / 2)) \<and> \<not> is_exact_integer (Real_div (Fin (1 / 2)) (Fin 1))
   \<and> stripes (Fin 1) (Point (Fin (1 / 2)) (Fin 0)) = Fin 1
   \<and> Real_le (Fin (- 3 / 2)) (Fin 0)
   \<and> stripes (Fin 1) (Point (Fin (- 3 / 2)) (Fin 0)) = Fin 1"
  using stripes_tie_break [of "Fin 1" "Point (Fin 2) (Fin 0)"]
    stripes_tie_break [of "Fin 1" "Point (Fin (1 / 2)) (Fin 0)"]
    stripes_tie_break [of "Fin 1" "Point (Fin (- 3 / 2)) (Fin 0)"]
  by (simp add: is_exact_integer_def trunc_int_def)

section \<open>Degenerate scale factors\<close>

text \<open>
  C5: for every surface \<open>f\<close>, scale point \<open>s\<close> and sample point \<open>p\<close>: if \<open>s.x == 0\<close> or
  \<open>s.y == 0\<close> then \<open>scale(f, s)(p)\<close> is \<open>+infinity\<close>, otherwise it is
  \<open>f(Point(p.x / s.x, p.y / s.y))\<close>; in particular
  \<open>scale(slope(), Point(0, 1))(Point(5, 0))\<close> is \<open>+infinity\<close>.
\<close>

theorem scale_semantics:
  "(Real_eq (px s) (Fin 0) \<or> Real_eq (py s) (Fin 0) \<longrightarrow> scale f s p = PInf)
   \<and> (\<not> (Real_eq (px s) (Fin 0) \<or> Real_eq (py s) (Fin 0)) \<longrightarrow>
        scale f s p = f (Point (Real_div (px p) (px s)) (Real_div (py p) (py s))))
   \<and> scale slope (Point (Fin 0) (Fin 1)) (Point (Fin 5) (Fin 0)) = PInf"
  by (simp add: scale_def)

theorem scale_semantics_witness:
  "(Real_eq (Fin 2) (Fin 0) \<or> Real_eq (Fin 0) (Fin 0))
   \<and> scale sqr (Point (Fin 2) (Fin 0)) (Point (Fin 6) (Fin 1)) = PInf
   \<and> \<not> (Real_eq (Fin 2) (Fin 0) \<or> Real_eq (Fin 4) (Fin 0))
   \<and> scale sqr (Point (Fin 2) (Fin 4)) (Point (Fin 6) (Fin 1)) = Fin 9"
  using scale_semantics [of "Point (Fin 2) (Fin 0)" sqr "Point (Fin 6) (Fin 1)"]
    scale_semantics [of "Point (Fin 2) (Fin 4)" sqr "Point (Fin 6) (Fin 1)"]
  by (simp add: sqr_def)

section \<open>Composition\<close>

text \<open>
  C8: \<open>compose(f1, f2, ..., fn)(p)\<close> is \<open>fn(... f2(f1(p)) ...)\<close>, the functions applied
  from left to right, and \<open>compose()\<close> with no argument is the identity.
\<close>

theorem compose_is_pipeline:
  "compose fs p = pipeline_spec fs p \<and> compose [] x = x"
proof -
  have "compose fs p = foldl (\<lambda>acc f. f acc) p fs"
    by (induction fs arbitrary: p) (simp_all only: compose_Cons foldl.simps compose.simps(1))
  then show ?thesis
    by (simp add: pipeline_spec_def)
qed

section \<open>Reflection\<close>

text \<open>
  C10: for every surface \<open>f\<close> and every point \<open>p\<close>, \<open>flip(flip(f))(p)\<close> is \<open>f(p)\<close>:
  negating the x-coordinate twice gives the coordinate back.
\<close>

theorem flip_involution: "flip (flip f) p = f p"
  by (simp add: flip_def Real_neg_neg)

section \<open>The checkerboard\<close>

lemma stripes_at_zero:
  assumes "Real_lt (Fin 0) s"
  shows "stripes s (Point (Fin 0) b) = Fin 0"
  using assms by (cases s rule: positive_cases) (simp_all add: stripes_def trunc_int_def)

lemma checker_positive:
  assumes "Real_lt (Fin 0) s"
  shows "checker s p =
     std_fmod
       (Real_add
          (Real_add (stripes s (Point (Real_neg (px p)) (Real_neg (py p))))
                    (stripes s (Point (Real_neg (py p)) (Real_neg (px p)))))
          (Fin 1))
       (Fin 2)"
  using positive_not_le [OF assms] by (simp add: checker_def)

text \<open>
  C9: for every \<open>s > 0\<close>, \<open>checker(s)(Point(0, 0))\<close> is 1: both \<open>stripes\<close> terms are 0 at
  the origin, and 1 is added before the sum is reduced modulo 2.
\<close>

theorem checker_at_origin:
  assumes "Real_lt (Fin 0) s"
  shows "stripes s (Point (Real_neg (Fin 0)) (Real_neg (Fin 0))) = Fin 0
       \<and> checker s (Point (Fin 0) (Fin 0)) = Fin 1"
  using stripes_at_zero [OF assms, of "Fin 0"]
  by (simp add: checker_positive [OF assms] trunc_int_def)

theorem checker_at_origin_witness:
  "Real_lt (Fin 0) (Fin 3)
   \<and> stripes (Fin 3) (Point (Real_neg (Fin 0)) (Real_neg (Fin 0))) = Fin 0
   \<and> checker (Fin 3) (Point (Fin 0) (Fin 0)) = Fin 1"
  using checker_at_origin [of "Fin 3"] by simp

text \<open>
  C2, as stated: for every \<open>s > 0\<close> and every point \<open>p\<close>, \<open>checker(s)(p)\<close> is the sum of
  \<open>stripes(s)\<close> at the two reflections of \<open>p\<close>, modulo 2, with no other adjustment. At the
  origin the two terms are 0, their sum modulo 2 is 0, and \<open>checker\<close> returns 1.
\<close>

theorem checker_plain_sum_counterexample:
  "Real_lt (Fin 0) (Fin 1)
   \<and> checker (Fin 1) (Point (Fin 0) (Fin 0)) \<noteq>
       std_fmod
         (Real_add (stripes (Fin 1) (Point (Real_neg (Fin 0)) (Real_neg (Fin 0))))
                   (stripes (Fin 1) (Point (Real_neg (Fin 0)) (Real_neg (Fin 0)))))
         (Fin 2)"
  by (simp add: checker_def stripes_def trunc_int_def)

text \<open>
  C2, amended: for every \<open>s > 0\<close> and every point \<open>p\<close>, \<open>checker(s)(p)\<close> is the sum of
  \<open>stripes(s)\<close> at \<open>Point(-p.x, -p.y)\<close> and at \<open>Point(-p.y, -p.x)\<close>, plus 1, modulo 2. So
  when both terms are 0 or 1, \<open>checker\<close> is 1 where they agree and 0 where they differ.
\<close>

theorem checker_sum_plus_one:
  assumes "Real_lt (Fin 0) s"
  shows "checker s p =
       std_fmod
         (Real_add
            (Real_add (stripes s (Point (Real_neg (px p)) (Real_neg (py p))))
                      (stripes s (Point (Real_neg (py p)) (Real_neg (px p)))))
            (Fin 1))
         (Fin 2)
     \<and> ((stripes s (Point (Real_neg (px p)) (Real_neg (py p))) = Fin 0
          \<or> stripes s (Point (Real_neg (px p)) (Real_neg (py p))) = Fin 1)
        \<and> (stripes s (Point (Real_neg (py p)) (Real_neg (px p))) = Fin 0
          \<or> stripes s (Point (Real_neg (py p)) (Real_neg (px p))) = Fin 1)
        \<longrightarrow> checker s p =
          (if stripes s (Point (Real_neg (px p)) (Real_neg (py p)))
              = stripes s (Point (Real_neg (py p)) (Real_neg (px p)))
           then Fin 1 else Fin 0))"
  using checker_of_binary
    [of "stripes s (Point (Real_neg (px p)) (Real_neg (py p)))"
        "stripes s (Point (Real_neg (py p)) (Real_neg (px p)))"]
  by (simp only: checker_positive [OF assms]) simp

text \<open>
  At \<open>s = 1\<close> and \<open>p = (1/2, -1/2)\<close> the two terms are 0 and 1 and \<open>checker\<close> is 0; at
  \<open>p = (1/2, 1/2)\<close> both are 0 and \<open>checker\<close> is 1.
\<close>

theorem checker_sum_plus_one_witness:
  "Real_lt (Fin 0) (Fin 1)
   \<and> stripes (Fin 1) (Point (Real_neg (Fin (1 / 2))) (Real_neg (Fin (- 1 / 2)))) = Fin 0
   \<and> stripes (Fin 1) (Point (Real_neg (Fin (- 1 / 2))) (Real_neg (Fin (1 / 2)))) = Fin 1
   \<and> checker (Fin 1) (Point (Fin (1 / 2)) (Fin (- 1 / 2))) = Fin 0
   \<and> checker (Fin 1) (Point (Fin (1 / 2)) (Fin (1 / 2))) = Fin 1"
proof -
  have a: "stripes (Fin 1) (Point (Fin (- (1 / 2))) b) = Fin 0" for b
    by (simp add: stripes_def trunc_int_def)
  have b: "stripes (Fin 1) (Point (Fin (1 / 2)) b) = Fin 1" for b
    by (simp add: stripes_def trunc_int_def)
  show ?thesis
    using checker_sum_plus_one [of "Fin 1" "Point (Fin (1 / 2)) (Fin (- 1 / 2))"]
      checker_sum_plus_one [of "Fin 1" "Point (Fin (1 / 2)) (Fin (1 / 2))"]
    by (simp add: a b trunc_int_def)
qed

section \<open>The range of \<open>stripes\<close> and \<open>checker\<close>\<close>

lemma stripes_range_reflected:
  assumes "Real_lt (Fin 0) s"
  shows "(stripes s (Point (Real_neg a) b) = Fin 0 \<or> stripes s (Point (Real_neg a) b) = Fin 1)
           \<longleftrightarrow> is_finite (Real_div a s)"
  using stripes_range_iff [OF assms, of "Point (Real_neg a) b"]
  by (simp add: Real_div_neg is_finite_neg)

lemma stripes_reflected_not_finite:
  assumes "Real_lt (Fin 0) s" and "\<not> is_finite (Real_div a s)"
  shows "stripes s (Point (Real_neg a) b) = NaN"
  using assms(2) by (intro stripes_not_finite [OF assms(1)]) (simp add: Real_div_neg is_finite_neg)

lemma checker_range_iff:
  assumes "Real_lt (Fin 0) s"
  shows "(checker s p = Fin 0 \<or> checker s p = Fin 1)
           \<longleftrightarrow> is_finite (Real_div (px p) s) \<and> is_finite (Real_div (py p) s)"
proof (cases "is_finite (Real_div (px p) s) \<and> is_finite (Real_div (py p) s)")
  case True
  then have "stripes s (Point (Real_neg (px p)) (Real_neg (py p))) = Fin 0
           \<or> stripes s (Point (Real_neg (px p)) (Real_neg (py p))) = Fin 1"
    and "stripes s (Point (Real_neg (py p)) (Real_neg (px p))) = Fin 0
           \<or> stripes s (Point (Real_neg (py p)) (Real_neg (px p))) = Fin 1"
    by (simp_all only: stripes_range_reflected [OF assms])
  from checker_of_binary [OF this] True show ?thesis
    by (simp only: checker_positive [OF assms]) simp
next
  case False
  then have "stripes s (Point (Real_neg (px p)) (Real_neg (py p))) = NaN
           \<or> stripes s (Point (Real_neg (py p)) (Real_neg (px p))) = NaN"
    using stripes_reflected_not_finite [OF assms] by blast
  from checker_of_NaN [OF this] False show ?thesis
    by (simp only: checker_positive [OF assms]) simp
qed

lemma stripes_overflow:
  assumes "0 < r" and "0 < a" and "2 ^ 1024 \<le> a / r"
  shows "stripes (Fin r) (Point (Fin a) b) = NaN"
proof -
  have "2 ^ 1024 \<le> \<bar>a / r\<bar>"
    using assms by simp
  then have "round_binary64 (a / r) = signed_inf (a / r)"
    by (rule round_binary64_overflow)
  then have "Real_div (Fin a) (Fin r) = PInf"
    using assms by (simp add: signed_inf_def)
  then show ?thesis
    using assms by (simp add: stripes_def del: Real_div.simps)
qed

text \<open>
  C6, as stated: for every \<open>s > 0\<close>, \<open>stripes(s)(p)\<close> is 0 or 1 whenever \<open>p.x\<close> is finite,
  and \<open>checker(s)(p)\<close> is 0 or 1 for every \<open>p\<close>. Neither holds: with \<open>s = 1\<close> and
  \<open>p.x = +infinity\<close>, \<open>checker\<close> returns NaN; and with the binary64 numbers
  \<open>s = 2 powi (-1000)\<close> and \<open>p.x = 2 ^ 52\<close> the quotient overflows to \<open>+infinity\<close> and
  \<open>stripes\<close> returns NaN.
\<close>

theorem stripes_checker_range_counterexample:
  "Real_lt (Fin 0) (Fin 1)
   \<and> checker (Fin 1) (Point PInf (Fin 0)) \<noteq> Fin 0
   \<and> checker (Fin 1) (Point PInf (Fin 0)) \<noteq> Fin 1
   \<and> Real_lt (Fin 0) (Fin (1 / 2 ^ 1000))
   \<and> is_binary64 (Fin (1 / 2 ^ 1000))
   \<and> is_binary64 (Fin (2 ^ 52)) \<and> is_finite (Fin (2 ^ 52))
   \<and> stripes (Fin (1 / 2 ^ 1000)) (Point (Fin (2 ^ 52)) (Fin 0)) \<noteq> Fin 0
   \<and> stripes (Fin (1 / 2 ^ 1000)) (Point (Fin (2 ^ 52)) (Fin 0)) \<noteq> Fin 1"
proof -
  have "checker (Fin 1) (Point PInf (Fin 0)) = NaN"
    by (simp add: checker_def stripes_def trunc_int_def signed_inf_def)
  moreover have "stripes (Fin (1 / 2 ^ 1000)) (Point (Fin (2 ^ 52)) (Fin 0)) = NaN"
    by (rule stripes_overflow) simp_all
  moreover have "is_binary64 (Fin (1 / 2 ^ 1000))"
    using round_binary64_dyadic [of 1 1000] by (simp add: is_binary64_def)
  moreover have "is_binary64 (Fin (2 ^ 52))"
    using round_binary64_int [of "2 ^ 52"] by (simp add: is_binary64_def)
  ultimately show ?thesis
    by (simp add: is_finite_def)
qed

lemma checker_not_finite:
  assumes "Real_lt (Fin 0) s"
    and "\<not> (is_finite (Real_div (px p) s) \<and> is_finite (Real_div (py p) s))"
  shows "checker s p = NaN"
proof -
  have "stripes s (Point (Real_neg (px p)) (Real_neg (py p))) = NaN
      \<or> stripes s (Point (Real_neg (py p)) (Real_neg (px p))) = NaN"
    using assms(2) stripes_reflected_not_finite [OF assms(1)] by blast
  from checker_of_NaN [OF this] show ?thesis
    by (simp only: checker_positive [OF assms(1)])
qed

text \<open>
  C6, amended: for every \<open>s > 0\<close> and every point \<open>p\<close>, \<open>stripes(s)(p)\<close> is 0 or 1 exactly
  when the floating-point quotient \<open>p.x / s\<close> is finite (so \<open>p.x\<close> is finite and the
  division does not overflow), and \<open>checker(s)(p)\<close> is 0 or 1 exactly when both
  \<open>p.x / s\<close> and \<open>p.y / s\<close> are finite; otherwise the result is NaN.
\<close>

theorem stripes_checker_range:
  assumes "Real_lt (Fin 0) s"
  shows "((stripes s p = Fin 0 \<or> stripes s p = Fin 1) \<longleftrightarrow> is_finite (Real_div (px p) s))
       \<and> (\<not> is_finite (Real_div (px p) s) \<longrightarrow> stripes s p = NaN)
       \<and> ((checker s p = Fin 0 \<or> checker s p = Fin 1)
            \<longleftrightarrow> is_finite (Real_div (px p) s) \<and> is_finite (Real_div (py p) s))
       \<and> (\<not> (is_finite (Real_div (px p) s) \<and> is_finite (Real_div (py p) s))
            \<longrightarrow> checker s p = NaN)"
  using stripes_range_iff [OF assms, of p] checker_range_iff [OF assms, of p]
    stripes_not_finite [OF assms, of p] checker_not_finite [OF assms, of p]
  by blast

text \<open>
  At \<open>s = 2\<close>: the point \<open>(3, -5)\<close> has finite quotients and both values are 0 or 1; the
  point \<open>(+infinity, 3)\<close> has an infinite quotient and both values are NaN; the point
  \<open>(3, NaN)\<close> has a finite quotient along x only, so \<open>stripes\<close> is 0 or 1 and \<open>checker\<close>
  is NaN.
\<close>

theorem stripes_checker_range_witness:
  "Real_lt (Fin 0) (Fin 2)
   \<and> is_finite (Real_div (Fin 3) (Fin 2)) \<and> is_finite (Real_div (Fin (- 5)) (Fin 2))
   \<and> (stripes (Fin 2) (Point (Fin 3) (Fin (- 5))) = Fin 0
        \<or> stripes (Fin 2) (Point (Fin 3) (Fin (- 5))) = Fin 1)
   \<and> (checker (Fin 2) (Point (Fin 3) (Fin (- 5))) = Fin 0
        \<or> checker (Fin 2) (Point (Fin 3) (Fin (- 5))) = Fin 1)
   \<and> \<not> is_finite (Real_div PInf (Fin 2))
   \<and> stripes (Fin 2) (Point PInf (Fin 3)) = NaN
   \<and> checker (Fin 2) (Point PInf (Fin 3)) = NaN
   \<and> \<not> is_finite (Real_div NaN (Fin 2))
   \<and> (stripes (Fin 2) (Point (Fin 3) NaN) = Fin 0
        \<or> stripes (Fin 2) (Point (Fin 3) NaN) = Fin 1)
   \<and> checker (Fin 2) (Point (Fin 3) NaN) = NaN"
  using stripes_checker_range [of "Fin 2" "Point (Fin 3) (Fin (- 5))"]
    stripes_checker_range [of "Fin 2" "Point PInf (Fin 3)"]
    stripes_checker_range [of "Fin 2" "Point (Fin 3) NaN"]
  by (simp add: is_finite_def signed_inf_def)

section \<open>Translation there and back\<close>

lemma translate_twice:
  "translate (translate f v) (Point (Real_neg (px v)) (Real_neg (py v))) p =
     f (Point (Real_sub (Real_add (px p) (px v)) (px v))
              (Real_sub (Real_add (py p) (py v)) (py v)))"
  by (simp add: translate_def Real_sub_neg)

lemma add_sub_exact:
  assumes "is_binary64 a" and "exact_sum a b"
  shows "Real_sub (Real_add a b) b = a"
proof -
  obtain x y where a: "a = Fin x" and b: "b = Fin y"
    and s: "round_binary64 (x + y) = Fin (x + y)"
    using assms(2) by (auto simp add: exact_sum_def split: Real.splits)
  have "Real_sub (Real_add a b) b = round_binary64 x"
    by (simp add: a b s Real_sub_def)
  also have "\<dots> = Fin x"
    using assms(1) by (simp add: a is_binary64_def)
  finally show ?thesis
    by (simp add: a)
qed

lemma round_binary64_absorbs: "round_binary64 (2 ^ 52 + 1 / 4) = Fin (2 ^ 52)"
proof -
  have "binade (2 ^ 52 + 1 / 4) = 52"
    by (rule binade_eq) simp_all
  then have "ulp (2 ^ 52 + 1 / 4) = 1"
    by (simp add: ulp_def)
  then show ?thesis
    by (simp add: round_binary64_def round_half_even_def)
qed

text \<open>
  C7, as stated: for every surface \<open>f\<close>, vector \<open>v\<close> and point \<open>p\<close>,
  \<open>translate(translate(f, v), Point(-v.x, -v.y))(p)\<close> is \<open>f(p)\<close>. The round trip computes
  \<open>(p.x + v.x) - v.x\<close> in floating point. With \<open>f = slope()\<close>, \<open>v.x = 2 ^ 52\<close> and
  \<open>p.x = 1/4\<close> the sum rounds to \<open>2 ^ 52\<close> and the round trip returns 0, not 1/4; with
  \<open>v.x = +infinity\<close> it returns NaN.
\<close>

theorem translate_round_trip_counterexample:
  "is_binary64 (Fin (1 / 4)) \<and> is_binary64 (Fin (2 ^ 52))
   \<and> translate (translate slope (Point (Fin (2 ^ 52)) (Fin 0)))
        (Point (Real_neg (Fin (2 ^ 52))) (Real_neg (Fin 0))) (Point (Fin (1 / 4)) (Fin 0))
      \<noteq> slope (Point (Fin (1 / 4)) (Fin 0))
   \<and> translate (translate slope (Point PInf (Fin 0)))
        (Point (Real_neg PInf) (Real_neg (Fin 0))) (Point (Fin 0) (Fin 0))
      \<noteq> slope (Point (Fin 0) (Fin 0))"
proof -
  have "is_binary64 (Fin (1 / 4))"
    using round_binary64_dyadic [of 1 2] by (simp add: is_binary64_def)
  moreover have "is_binary64 (Fin (2 ^ 52))"
    using round_binary64_int [of "2 ^ 52"] by (simp add: is_binary64_def)
  moreover have "Real_add (Fin (1 / 4)) (Fin (2 ^ 52)) = Fin (2 ^ 52)"
    using round_binary64_absorbs by (simp add: add.commute)
  ultimately show ?thesis
    by (simp add: translate_def slope_def Real_sub_def)
qed

lemma add_sub_compares_equal:
  assumes "is_binary64 a" and "exact_sum a b"
  shows "Real_eq (Real_sub (Real_add a b) b) a"
proof -
  have trip: "Real_sub (Real_add a b) b = a"
    by (rule add_sub_exact [OF assms])
  obtain x where "a = Fin x"
    using assms(2) by (auto simp add: exact_sum_def split: Real.splits)
  then have "Real_eq a a"
    by simp
  then show ?thesis
    by (simp only: trip)
qed

text \<open>
  A third way for the round trip to miss \<open>p\<close> lies outside this model, which has one
  zero: in IEEE-754 \<open>(-0.0 + v.x) - v.x\<close> is \<open>+0.0\<close>, and a surface such as \<open>1 / p.x\<close>
  tells the two apart. The round trip is therefore stated as the evaluation of \<open>f\<close> at
  the computed point, whose coordinates compare equal to those of \<open>p\<close> when the sums are
  exact, and as \<open>f(p)\<close> only where neither coordinate of \<open>p\<close> is a zero.
\<close>

text \<open>
  C7, amended: for every surface \<open>f\<close>, vector \<open>v\<close> and point \<open>p\<close>,
  \<open>translate(translate(f, v), Point(-v.x, -v.y))(p)\<close> is \<open>f\<close> at the point
  \<open>((p.x + v.x) - v.x, (p.y + v.y) - v.y)\<close>, computed in floating point. For finite \<open>v\<close>
  and \<open>p\<close> whose sums \<open>p.x + v.x\<close> and \<open>p.y + v.y\<close> are exact, the coordinates of that
  point compare equal (\<open>==\<close>) to those of \<open>p\<close>; if moreover \<open>p.x != 0\<close> and \<open>p.y != 0\<close>,
  the point is \<open>p\<close> and the round trip returns \<open>f(p)\<close>.
\<close>

theorem translate_round_trip_exact:
  "translate (translate f v) (Point (Real_neg (px v)) (Real_neg (py v))) p =
     f (Point (Real_sub (Real_add (px p) (px v)) (px v))
              (Real_sub (Real_add (py p) (py v)) (py v)))
   \<and> (is_binary64 (px p) \<and> is_binary64 (py p)
        \<and> exact_sum (px p) (px v) \<and> exact_sum (py p) (py v)
      \<longrightarrow> Real_eq (Real_sub (Real_add (px p) (px v)) (px v)) (px p)
        \<and> Real_eq (Real_sub (Real_add (py p) (py v)) (py v)) (py p))
   \<and> (is_binary64 (px p) \<and> is_binary64 (py p)
        \<and> exact_sum (px p) (px v) \<and> exact_sum (py p) (py v)
        \<and> \<not> Real_eq (px p) (Fin 0) \<and> \<not> Real_eq (py p) (Fin 0)
      \<longrightarrow> translate (translate f v) (Point (Real_neg (px v)) (Real_neg (py v))) p = f p)"
proof (intro conjI impI)
  show "translate (translate f v) (Point (Real_neg (px v)) (Real_neg (py v))) p =
     f (Point (Real_sub (Real_add (px p) (px v)) (px v))
              (Real_sub (Real_add (py p) (py v)) (py v)))"
    by (rule translate_twice)
next
  assume "is_binary64 (px p) \<and> is_binary64 (py p)
        \<and> exact_sum (px p) (px v) \<and> exact_sum (py p) (py v)"
  then show "Real_eq (Real_sub (Real_add (px p) (px v)) (px v)) (px p)"
    and "Real_eq (Real_sub (Real_add (py p) (py v)) (py v)) (py p)"
    by (simp_all only: add_sub_compares_equal)
next
  assume "is_binary64 (px p) \<and> is_binary64 (py p)
        \<and> exact_sum (px p) (px v) \<and> exact_sum (py p) (py v)
        \<and> \<not> Real_eq (px p) (Fin 0) \<and> \<not> Real_eq (py p) (Fin 0)"
  then show "translate (translate f v) (Point (Real_neg (px v)) (Real_neg (py v))) p = f p"
    by (simp add: translate_twice add_sub_exact)
qed

text \<open>
  With \<open>f = slope()\<close>, \<open>v = (1, -2)\<close> and \<open>p = (1/2, 3)\<close>: the sums \<open>3/2\<close> and \<open>1\<close> are
  exact, no coordinate of \<open>p\<close> is zero, and the round trip returns \<open>1/2\<close>.
\<close>

theorem translate_round_trip_exact_witness:
  "is_binary64 (Fin (1 / 2)) \<and> is_binary64 (Fin 3)
   \<and> exact_sum (Fin (1 / 2)) (Fin 1) \<and> exact_sum (Fin 3) (Fin (- 2))
   \<and> \<not> Real_eq (Fin (1 / 2)) (Fin 0) \<and> \<not> Real_eq (Fin 3) (Fin 0)
   \<and> Real_eq (Real_sub (Real_add (Fin (1 / 2)) (Fin 1)) (Fin 1)) (Fin (1 / 2))
   \<and> Real_eq (Real_sub (Real_add (Fin 3) (Fin (- 2))) (Fin (- 2))) (Fin 3)
   \<and> translate (translate slope (Point (Fin 1) (Fin (- 2))))
        (Point (Real_neg (Fin 1)) (Real_neg (Fin (- 2)))) (Point (Fin (1 / 2)) (Fin 3))
      = Fin (1 / 2)"
  using translate_round_trip_exact
    [of slope "Point (Fin 1) (Fin (- 2))" "Point (Fin (1 / 2)) (Fin 3)"]
  by (simp add: is_binary64_def exact_sum_def slope_def Real_sub_def)

section \<open>Degenerate parameters\<close>

text \<open>
  C4: for every \<open>s <= 0\<close> and every point, \<open>steps\<close>, \<open>stripes\<close>, \<open>checker\<close> and \<open>rings\<close>
  return 0; for every \<open>a <= 0\<close> or \<open>b <= 0\<close> and every point, \<open>ellipse\<close> and \<open>rectangle\<close>
  return 0.
\<close>

theorem degenerate_parameters_give_zero:
  "(Real_le s (Fin 0) \<longrightarrow>
      steps s p = Fin 0 \<and> stripes s p = Fin 0 \<and> checker s p = Fin 0 \<and> rings s p = Fin 0)
   \<and> (Real_le a (Fin 0) \<or> Real_le b (Fin 0) \<longrightarrow>
      ellipse a b p = Fin 0 \<and> rectangle a b p = Fin 0)"
  by (simp add: steps_def stripes_def checker_def rings_def ellipse_def rectangle_def)

theorem degenerate_parameters_give_zero_witness:
  "Real_le (Fin (- 1)) (Fin 0)
   \<and> steps (Fin (- 1)) (Point (Fin 3) PInf) = Fin 0
   \<and> stripes (Fin (- 1)) (Point (Fin 3) PInf) = Fin 0
   \<and> checker (Fin (- 1)) (Point (Fin 3) PInf) = Fin 0
   \<and> rings (Fin (- 1)) (Point (Fin 3) PInf) = Fin 0
   \<and> (Real_le (Fin 2) (Fin 0) \<or> Real_le NInf (Fin 0))
   \<and> ellipse (Fin 2) NInf (Point (Fin 3) PInf) = Fin 0
   \<and> rectangle (Fin 2) NInf (Point (Fin 3) PInf) = Fin 0"
  using degenerate_parameters_give_zero
    [of "Fin (- 1)" "Point (Fin 3) PInf" "Fin 2" NInf]
  by simp

end
